theory Spec2Isabelle
  imports Complex_Main
begin

section \<open>Object filtering and trajectory projection of the path safety checker\<close>

text \<open>
  A shallow embedding of
  \<^verbatim>\<open>planning/behavior_path_planner/src/utils/path_safety_checker/objects_filtering.cpp\<close>.
  A C++ \<^verbatim>\<open>double\<close> or \<^verbatim>\<open>float\<close> is read as a real number, so every statement
  below is about exact arithmetic; \<^verbatim>\<open>size_t\<close> indices are natural numbers.
  Functions that the file calls but that live in other packages (arc length along a path,
  pose interpolation, footprint polygons, polygon disjointness, the lane network) are
  arguments of the functions that call them, under the name the source gives them.
\<close>

subsection \<open>Messages\<close>

record Point =
  pt_x :: real
  pt_y :: real
  pt_z :: real

record Quaternion =
  q_x :: real
  q_y :: real
  q_z :: real
  q_w :: real

record Pose =
  position :: Point
  orientation :: Quaternion

record Vector3 =
  vec_x :: real
  vec_y :: real
  vec_z :: real

text \<open>The fields \<^verbatim>\<open>linear\<close> and \<^verbatim>\<open>angular\<close> of a twist or an acceleration.\<close>

record Twist =
  linear_part :: Vector3
  angular_part :: Vector3

record PoseWithCovariance =
  pose :: Pose
  pose_covariance :: "real list"

record TwistWithCovariance =
  twist :: Twist
  twist_covariance :: "real list"

record AccelWithCovariance =
  accel :: Twist
  accel_covariance :: "real list"

record Header =
  stamp :: nat
  frame_id :: string

text \<open>
  Modelled from the spec: the label constants of \<^verbatim>\<open>ObjectClassification\<close>, whose
  declaration is outside the file. They are the closed enumeration of the specification's
  data model, the eight classes the source compares a label with.
\<close>

datatype Label = UNKNOWN | CAR | TRUCK | BUS | TRAILER | MOTORCYCLE | BICYCLE | PEDESTRIAN

record ObjectClassification =
  label :: Label
  probability :: real

record Shape =
  shape_type :: nat
  footprint :: "Point list"
  dimensions :: Vector3

text \<open>
  Modelled from the spec: the message \<^verbatim>\<open>PredictedPath\<close>, whose declaration is outside
  the file. It is a confidence and an ordered sequence of (time offset, pose) samples; of
  these the file itself reads the confidence only.
\<close>

record PredictedPath =
  confidence :: real
  path :: "(real \<times> Pose) list"

record PredictedObjectKinematics =
  initial_pose_with_covariance :: PoseWithCovariance
  initial_twist_with_covariance :: TwistWithCovariance
  initial_acceleration_with_covariance :: AccelWithCovariance
  predicted_paths :: "PredictedPath list"

record PredictedObject =
  object_id :: "nat list"
  classification :: "ObjectClassification list"
  kinematics :: PredictedObjectKinematics
  shape :: Shape

record PredictedObjects =
  header :: Header
  objects :: "PredictedObject list"

text \<open>What \<^verbatim>\<open>PredictedObjects()\<close> constructs: a zero stamp, an empty frame, no objects.\<close>

definition default_Header :: Header where
  "default_Header = \<lparr>stamp = 0, frame_id = []\<rparr>"

definition default_PredictedObjects :: PredictedObjects where
  "default_PredictedObjects = \<lparr>header = default_Header, objects = []\<rparr>"

record ObjectTypesToCheck =
  check_car :: bool
  check_truck :: bool
  check_bus :: bool
  check_trailer :: bool
  check_unknown :: bool
  check_bicycle :: bool
  check_motorcycle :: bool
  check_pedestrian :: bool

record ObjectsFilteringParams =
  ignore_object_velocity_threshold :: real
  object_check_forward_distance :: real
  object_check_backward_distance :: real
  object_types_to_check :: ObjectTypesToCheck

record PathPointWithLaneId =
  point_pose :: Pose
  lane_ids :: "nat list"

record PathWithLaneId =
  points :: "PathPointWithLaneId list"

type_synonym Point2d = "real \<times> real"

record Polygon2d =
  outer :: "Point2d list"

text \<open>
  Of a lanelet the source reads only \<^verbatim>\<open>polygon2d().basicPolygon()\<close>, the ring of its
  boundary points.
\<close>

record ConstLanelet =
  lanelet_id :: nat
  basicPolygon :: "Point2d list"

subsection \<open>Velocity gate\<close>

text \<open>\<^verbatim>\<open>std::hypot\<close> and \<^verbatim>\<open>std::numeric_limits<double>::max()\<close>.\<close>

definition hypot :: "real \<Rightarrow> real \<Rightarrow> real" where
  "hypot a b = sqrt (a * a + b * b)"

definition numeric_limits_double_max :: real where
  "numeric_limits_double_max = (2 - 1 / 2 ^ 52) * 2 ^ 1023"

text \<open>
  The loop \<^verbatim>\<open>for (const auto & obj : objects.objects)\<close> of each gate is a left fold over
  the input objects; its state is the batch \<^verbatim>\<open>filtered\<close> under construction.
\<close>

definition v_norm_of :: "PredictedObject \<Rightarrow> real" where
  "v_norm_of obj =
     hypot
       (vec_x (linear_part (twist (initial_twist_with_covariance (kinematics obj)))))
       (vec_y (linear_part (twist (initial_twist_with_covariance (kinematics obj)))))"

definition filterObjectsByVelocity ::
  "PredictedObjects \<Rightarrow> real \<Rightarrow> real \<Rightarrow> PredictedObjects" where
  "filterObjectsByVelocity objs velocity_threshold max_velocity =
     foldl
       (\<lambda>filtered obj.
          let v_norm = v_norm_of obj in
          if velocity_threshold < v_norm \<and> v_norm < max_velocity
          then filtered\<lparr>objects := objects filtered @ [obj]\<rparr>
          else filtered)
       (default_PredictedObjects\<lparr>header := header objs\<rparr>)
       (objects objs)"

text \<open>The overload with the flag \<^verbatim>\<open>remove_above_threshold\<close>.\<close>

definition filterObjectsByVelocity_flag ::
  "PredictedObjects \<Rightarrow> real \<Rightarrow> bool \<Rightarrow> PredictedObjects" where
  "filterObjectsByVelocity_flag objs velocity_threshold remove_above_threshold =
     (if remove_above_threshold
      then filterObjectsByVelocity objs (- velocity_threshold) velocity_threshold
      else filterObjectsByVelocity objs velocity_threshold numeric_limits_double_max)"

subsection \<open>Longitudinal-window gate\<close>

text \<open>
  \<^verbatim>\<open>motion_utils::calcSignedArcLength\<close> is the first argument. The source changes the
  batch in place; the model returns the changed batch, whose header stays as it was.
\<close>

definition filterObjectsByPosition ::
  "(PathPointWithLaneId list \<Rightarrow> Point \<Rightarrow> Point \<Rightarrow> real) \<Rightarrow>
   PredictedObjects \<Rightarrow> PathPointWithLaneId list \<Rightarrow> Point \<Rightarrow> real \<Rightarrow> real \<Rightarrow>
   PredictedObjects" where
  "filterObjectsByPosition calcSignedArcLength objs path_points current_pose
     forward_distance backward_distance =
     (let filtered =
        foldl
          (\<lambda>filtered obj.
             let dist_ego_to_obj =
               calcSignedArcLength path_points current_pose
                 (position (pose (initial_pose_with_covariance (kinematics obj))))
             in
             if - backward_distance < dist_ego_to_obj \<and> dist_ego_to_obj < forward_distance
             then filtered\<lparr>objects := objects filtered @ [obj]\<rparr>
             else filtered)
          (default_PredictedObjects\<lparr>header := header objs\<rparr>)
          (objects objs)
      in objs\<lparr>objects := objects filtered\<rparr>)"

subsection \<open>Class gate\<close>

definition is_object_type :: "Label \<Rightarrow> ObjectTypesToCheck \<Rightarrow> bool" where
  "is_object_type t target_object_types =
     ((t = CAR \<and> check_car target_object_types) \<or>
      (t = TRUCK \<and> check_truck target_object_types) \<or>
      (t = BUS \<and> check_bus target_object_types) \<or>
      (t = TRAILER \<and> check_trailer target_object_types) \<or>
      (t = UNKNOWN \<and> check_unknown target_object_types) \<or>
      (t = BICYCLE \<and> check_bicycle target_object_types) \<or>
      (t = MOTORCYCLE \<and> check_motorcycle target_object_types) \<or>
      (t = PEDESTRIAN \<and> check_pedestrian target_object_types))"

text \<open>
  \<^verbatim>\<open>utils::getHighestProbLabel\<close> is the first argument. The batch that replaces the
  input is the local \<^verbatim>\<open>filtered_objects\<close>, built from a default-constructed value.
\<close>

definition filterObjectsByClass ::
  "(ObjectClassification list \<Rightarrow> Label) \<Rightarrow> PredictedObjects \<Rightarrow> ObjectTypesToCheck \<Rightarrow>
   PredictedObjects" where
  "filterObjectsByClass getHighestProbLabel objs target_object_types =
     foldl
       (\<lambda>filtered_objects object.
          let t = getHighestProbLabel (classification object) in
          if is_object_type t target_object_types
          then filtered_objects\<lparr>objects := objects filtered_objects @ [object]\<rparr>
          else filtered_objects)
       default_PredictedObjects
       (objects objs)"

subsection \<open>The pipeline\<close>

text \<open>
  \<^verbatim>\<open>route_handler->getCenterLinePath\<close> is an argument, after the label resolver and
  the arc length.
\<close>

definition filterObjects ::
  "(ObjectClassification list \<Rightarrow> Label) \<Rightarrow>
   (PathPointWithLaneId list \<Rightarrow> Point \<Rightarrow> Point \<Rightarrow> real) \<Rightarrow>
   (ConstLanelet list \<Rightarrow> real \<Rightarrow> real \<Rightarrow> PathWithLaneId) \<Rightarrow>
   PredictedObjects \<Rightarrow> ConstLanelet list \<Rightarrow> Point \<Rightarrow> ObjectsFilteringParams \<Rightarrow>
   PredictedObjects" where
  "filterObjects getHighestProbLabel calcSignedArcLength getCenterLinePath
     objs current_lanes current_pose params =
     (if objects objs = [] then default_PredictedObjects
      else
        let ignore_object_velocity_threshold = ignore_object_velocity_threshold params;
            object_check_forward_distance = object_check_forward_distance params;
            object_check_backward_distance = object_check_backward_distance params;
            target_object_types = object_types_to_check params;
            filtered_objects =
              filterObjectsByVelocity_flag objs ignore_object_velocity_threshold False;
            filtered_objects =
              filterObjectsByClass getHighestProbLabel filtered_objects target_object_types;
            path =
              getCenterLinePath current_lanes object_check_backward_distance
                object_check_forward_distance;
            filtered_objects =
              filterObjectsByPosition calcSignedArcLength filtered_objects (points path)
                current_pose object_check_forward_distance object_check_backward_distance
        in filtered_objects)"

subsection \<open>Partition by lanelets\<close>

datatype error = out_of_range

text \<open>\<^verbatim>\<open>std::vector::at\<close>, which throws when the index is not below the size.\<close>

definition vector_at :: "'a list \<Rightarrow> nat \<Rightarrow> error + 'a" where
  "vector_at xs i = (if i < length xs then Inr (xs ! i) else Inl out_of_range)"

text \<open>
  The loop over the target lanelets for the object of index \<open>i\<close>. Its state is
  \<^verbatim>\<open>target_indices\<close> and the flag \<^verbatim>\<open>is_filtered_object\<close>. A lanelet with an empty
  ring is passed over (\<^verbatim>\<open>continue\<close>); the ring is closed by its first point; the first
  lanelet whose polygon is not disjoint from the object's ends the loop (\<^verbatim>\<open>break\<close>).
  \<^verbatim>\<open>boost::geometry::disjoint\<close> is the first argument.
\<close>

fun lanelet_loop ::
  "(Polygon2d \<Rightarrow> Polygon2d \<Rightarrow> bool) \<Rightarrow> Polygon2d \<Rightarrow> nat \<Rightarrow> ConstLanelet list \<Rightarrow>
   nat list \<times> bool \<Rightarrow> nat list \<times> bool" where
  "lanelet_loop disjoint_fn obj_polygon i [] (target_indices, is_filtered_object) =
     (target_indices, is_filtered_object)"
| "lanelet_loop disjoint_fn obj_polygon i (llt # rest) (target_indices, is_filtered_object) =
     (let polygon2d = basicPolygon llt in
      if polygon2d = []
      then lanelet_loop disjoint_fn obj_polygon i rest (target_indices, is_filtered_object)
      else
        let lanelet_polygon = \<lparr>outer = polygon2d\<rparr>;
            lanelet_polygon =
              lanelet_polygon\<lparr>outer := outer lanelet_polygon @ [hd (outer lanelet_polygon)]\<rparr>
        in
        if \<not> disjoint_fn lanelet_polygon obj_polygon
        then (target_indices @ [i], True)
        else lanelet_loop disjoint_fn obj_polygon i rest (target_indices, is_filtered_object))"

text \<open>
  The loop \<^verbatim>\<open>for (size_t i = 0; i < objects.objects.size(); i++)\<close>;
  \<^verbatim>\<open>tier4_autoware_utils::toPolygon2d\<close> for an object is the first argument. The
  read \<^verbatim>\<open>objects.objects.at(i)\<close> is below the loop's own bound.
\<close>

function object_loop ::
  "(PredictedObject \<Rightarrow> Polygon2d) \<Rightarrow> (Polygon2d \<Rightarrow> Polygon2d \<Rightarrow> bool) \<Rightarrow>
   PredictedObjects \<Rightarrow> ConstLanelet list \<Rightarrow> nat \<Rightarrow> nat list \<times> nat list \<Rightarrow>
   nat list \<times> nat list" where
  "object_loop toPolygon2d disjoint_fn objs target_lanelets i (target_indices, other_indices) =
     (if i < length (objects objs) then
        let obj = objects objs ! i;
            obj_polygon = toPolygon2d obj;
            (target_indices, is_filtered_object) =
              lanelet_loop disjoint_fn obj_polygon i target_lanelets (target_indices, False);
            other_indices =
              (if \<not> is_filtered_object then other_indices @ [i] else other_indices)
        in object_loop toPolygon2d disjoint_fn objs target_lanelets (i + 1)
             (target_indices, other_indices)
      else (target_indices, other_indices))"
  by pat_completeness auto

termination
  by (relation "measure (\<lambda>(_, _, objs, _, i, _). length (objects objs) - i)") auto

definition separateObjectIndicesByLanelets ::
  "(PredictedObject \<Rightarrow> Polygon2d) \<Rightarrow> (Polygon2d \<Rightarrow> Polygon2d \<Rightarrow> bool) \<Rightarrow>
   PredictedObjects \<Rightarrow> ConstLanelet list \<Rightarrow> nat list \<times> nat list" where
  "separateObjectIndicesByLanelets toPolygon2d disjoint_fn objs target_lanelets =
     (if target_lanelets = [] then ([], [])
      else object_loop toPolygon2d disjoint_fn objs target_lanelets 0 ([], []))"

text \<open>The two loops \<^verbatim>\<open>for (const size_t i : indices)\<close> that copy the objects out.\<close>

fun push_back_at ::
  "PredictedObjects \<Rightarrow> nat list \<Rightarrow> PredictedObjects \<Rightarrow> error + PredictedObjects" where
  "push_back_at objs [] out = Inr out"
| "push_back_at objs (i # rest) out =
     (case vector_at (objects objs) i of
        Inl e \<Rightarrow> Inl e
      | Inr obj \<Rightarrow> push_back_at objs rest (out\<lparr>objects := objects out @ [obj]\<rparr>))"

definition separateObjectsByLanelets ::
  "(PredictedObject \<Rightarrow> Polygon2d) \<Rightarrow> (Polygon2d \<Rightarrow> Polygon2d \<Rightarrow> bool) \<Rightarrow>
   PredictedObjects \<Rightarrow> ConstLanelet list \<Rightarrow> error + (PredictedObjects \<times> PredictedObjects)" where
  "separateObjectsByLanelets toPolygon2d disjoint_fn objs target_lanelets =
     (let target_objects = default_PredictedObjects;
          other_objects = default_PredictedObjects;
          (target_indices, other_indices) =
            separateObjectIndicesByLanelets toPolygon2d disjoint_fn objs target_lanelets
      in
      case push_back_at objs target_indices target_objects of
        Inl e \<Rightarrow> Inl e
      | Inr target_objects \<Rightarrow>
          (case push_back_at objs other_indices other_objects of
             Inl e \<Rightarrow> Inl e
           | Inr other_objects \<Rightarrow> Inr (target_objects, other_objects)))"

subsection \<open>Projected objects and path selection\<close>

record PoseWithVelocityStamped =
  time :: real
  pose :: Pose
  velocity :: real

record PoseWithVelocityAndPolygonStamped = PoseWithVelocityStamped +
  poly :: Polygon2d

record PredictedPathWithPolygon =
  confidence :: real
  path :: "PoseWithVelocityAndPolygonStamped list"

record ExtendedPredictedObject =
  uuid :: "nat list"
  initial_pose :: PoseWithCovariance
  initial_twist :: TwistWithCovariance
  initial_acceleration :: AccelWithCovariance
  shape :: Shape
  predicted_paths :: "PredictedPathWithPolygon list"

text \<open>
  \<^verbatim>\<open>std::max_element(first, last, comp)\<close> with iterators as indices: the end iterator
  is the length. The candidate \<^verbatim>\<open>largest\<close> is replaced only when \<^verbatim>\<open>comp(*largest, *first)\<close>
  holds.
\<close>

function max_element_loop :: "('a \<Rightarrow> 'a \<Rightarrow> bool) \<Rightarrow> 'a list \<Rightarrow> nat \<Rightarrow> nat \<Rightarrow> nat" where
  "max_element_loop cmp xs largest first =
     (if first < length xs
      then max_element_loop cmp xs
             (if cmp (xs ! largest) (xs ! first) then first else largest) (first + 1)
      else largest)"
  by pat_completeness auto

termination
  by (relation "measure (\<lambda>(_, xs, _, first). length xs - first)") auto

definition max_element :: "('a \<Rightarrow> 'a \<Rightarrow> bool) \<Rightarrow> 'a list \<Rightarrow> nat" where
  "max_element cmp xs = (if xs = [] then length xs else max_element_loop cmp xs 0 1)"

definition getPredictedPathFromObj ::
  "ExtendedPredictedObject \<Rightarrow> bool \<Rightarrow> PredictedPathWithPolygon list" where
  "getPredictedPathFromObj obj is_use_all_predicted_path =
     (if \<not> is_use_all_predicted_path then
        let max_confidence_path =
          max_element (\<lambda>path1 path2. confidence path1 < confidence path2) (predicted_paths obj)
        in
        if max_confidence_path \<noteq> length (predicted_paths obj)
        then [predicted_paths obj ! max_confidence_path]
        else predicted_paths obj
      else predicted_paths obj)"

subsection \<open>Sampling loops\<close>

text \<open>
  Both projections run \<^verbatim>\<open>for (double t = 0.0; t < limit; t += dt) body\<close>. The loop does
  not end when \<open>dt\<close> is not positive and the start is below the limit, so its model is a
  partial function: \<open>None\<close> stands for a call that does not return.
\<close>

partial_function (option) for_time ::
  "(real \<Rightarrow> 's \<Rightarrow> 's) \<Rightarrow> real \<Rightarrow> real \<Rightarrow> real \<Rightarrow> 's \<Rightarrow> 's option" where
  "for_time body limit dt t s =
     (if t < limit then for_time body limit dt (t + dt) (body t s) else Some s)"

declare for_time.simps [code]

subsection \<open>Ego projection\<close>




subsection \<open>Other-agent projection\<close>






subsection \<open>Label resolution\<close>

text \<open>
  Modelled from the spec: \<^verbatim>\<open>utils::getHighestProbLabel\<close>, whose definition is in
  \<^verbatim>\<open>utils.cpp\<close>. The class with the maximum probability among the classification
  entries is selected, the first-listed entry winning a tie: a fold that replaces the
  best entry so far only by a strictly more probable one. The specification does not say
  what an empty classification resolves to; the model answers \<open>UNKNOWN\<close> there.
\<close>

definition getHighestProbLabel :: "ObjectClassification list \<Rightarrow> Label" where
  "getHighestProbLabel cls =
     (case cls of
        [] \<Rightarrow> UNKNOWN
      | c # rest \<Rightarrow>
          label (foldl (\<lambda>best e. if probability best < probability e then e else best) c rest))"


section \<open>Descriptions used by the statements\<close>

text \<open>The classes whose flag is set in the configured class set.\<close>

definition enabled_classes :: "ObjectTypesToCheck \<Rightarrow> Label set" where
  "enabled_classes target_object_types =
     {c. case c of
           UNKNOWN \<Rightarrow> check_unknown target_object_types
         | CAR \<Rightarrow> check_car target_object_types
         | TRUCK \<Rightarrow> check_truck target_object_types
         | BUS \<Rightarrow> check_bus target_object_types
         | TRAILER \<Rightarrow> check_trailer target_object_types
         | MOTORCYCLE \<Rightarrow> check_motorcycle target_object_types
         | BICYCLE \<Rightarrow> check_bicycle target_object_types
         | PEDESTRIAN \<Rightarrow> check_pedestrian target_object_types}"

text \<open>
  An object polygon touches a lanelet when the lanelet's ring is not empty and the ring,
  closed by its first point, is not disjoint from the object polygon.
\<close>

definition touches_lanelet ::
  "(Polygon2d \<Rightarrow> Polygon2d \<Rightarrow> bool) \<Rightarrow> Polygon2d \<Rightarrow> ConstLanelet \<Rightarrow> bool" where
  "touches_lanelet disjoint_fn obj_polygon llt \<longleftrightarrow>
     basicPolygon llt \<noteq> [] \<and>
     \<not> disjoint_fn \<lparr>outer = basicPolygon llt @ [hd (basicPolygon llt)]\<rparr> obj_polygon"

definition touches_some_lanelet ::
  "(Polygon2d \<Rightarrow> Polygon2d \<Rightarrow> bool) \<Rightarrow> ConstLanelet list \<Rightarrow> Polygon2d \<Rightarrow> bool" where
  "touches_some_lanelet disjoint_fn target_lanelets obj_polygon \<longleftrightarrow>
     (\<exists>llt \<in> set target_lanelets. touches_lanelet disjoint_fn obj_polygon llt)"





section \<open>Example inputs\<close>

text \<open>
  Concrete inputs for the instances below: poses on the x axis, an object with one
  classification entry, and simple stand-ins for the functions of the other packages
  (a straight centerline along the x axis, a footprint that is the object's centre).
\<close>

definition example_pose :: "real \<Rightarrow> Pose" where
  "example_pose s =
     \<lparr>position = \<lparr>pt_x = s, pt_y = 0, pt_z = 0\<rparr>,
      orientation = \<lparr>q_x = 0, q_y = 0, q_z = 0, q_w = 1\<rparr>\<rparr>"

definition example_object ::
  "nat \<Rightarrow> Label \<Rightarrow> real \<Rightarrow> real \<Rightarrow> real \<Rightarrow> PredictedPath list \<Rightarrow> PredictedObject" where
  "example_object n lbl s v_x v_y paths =
     \<lparr>object_id = [n],
      classification = [\<lparr>label = lbl, probability = 1\<rparr>],
      kinematics =
        \<lparr>initial_pose_with_covariance =
           \<lparr>PoseWithCovariance.pose = example_pose s, pose_covariance = []\<rparr>,
         initial_twist_with_covariance =
           \<lparr>twist = \<lparr>linear_part = \<lparr>vec_x = v_x, vec_y = v_y, vec_z = 0\<rparr>,
                      angular_part = \<lparr>vec_x = 0, vec_y = 0, vec_z = 0\<rparr>\<rparr>,
            twist_covariance = []\<rparr>,
         initial_acceleration_with_covariance =
           \<lparr>accel = \<lparr>linear_part = \<lparr>vec_x = 0, vec_y = 0, vec_z = 0\<rparr>,
                      angular_part = \<lparr>vec_x = 0, vec_y = 0, vec_z = 0\<rparr>\<rparr>,
            accel_covariance = []\<rparr>,
         PredictedObjectKinematics.predicted_paths = paths\<rparr>,
      PredictedObject.shape =
        \<lparr>shape_type = 0, footprint = [], dimensions = \<lparr>vec_x = 1, vec_y = 1, vec_z = 1\<rparr>\<rparr>\<rparr>"

definition example_header :: Header where
  "example_header = \<lparr>stamp = 7, frame_id = ''map''\<rparr>"

definition example_path :: "real \<Rightarrow> real \<Rightarrow> PredictedPathWithPolygon" where
  "example_path c t =
     \<lparr>confidence = c,
      path = [\<lparr>time = t, pose = example_pose 0, velocity = 0, poly = \<lparr>outer = []\<rparr>\<rparr>]\<rparr>"


definition all_but_pedestrians :: ObjectTypesToCheck where
  "all_but_pedestrians =
     \<lparr>check_car = True, check_truck = True, check_bus = True, check_trailer = True,
      check_unknown = True, check_bicycle = True, check_motorcycle = True,
      check_pedestrian = False\<rparr>"

definition arc_length_along_x :: "PathPointWithLaneId list \<Rightarrow> Point \<Rightarrow> Point \<Rightarrow> real" where
  "arc_length_along_x path_points src dst = pt_x dst - pt_x src"



definition no_centerline :: "ConstLanelet list \<Rightarrow> real \<Rightarrow> real \<Rightarrow> PathWithLaneId" where
  "no_centerline lanes backward forward = \<lparr>points = []\<rparr>"


definition centre_polygon :: "Pose \<Rightarrow> Shape \<Rightarrow> Polygon2d" where
  "centre_polygon p s = \<lparr>outer = [(pt_x (position p), pt_y (position p))]\<rparr>"

definition object_centre :: "PredictedObject \<Rightarrow> Polygon2d" where
  "object_centre obj =
     centre_polygon (PoseWithCovariance.pose (initial_pose_with_covariance (kinematics obj)))
       (PredictedObject.shape obj)"

definition share_no_point :: "Polygon2d \<Rightarrow> Polygon2d \<Rightarrow> bool" where
  "share_no_point a b \<longleftrightarrow> set (outer a) \<inter> set (outer b) = {}"

definition example_lanelets :: "ConstLanelet list" where
  "example_lanelets =
     [\<lparr>lanelet_id = 1, basicPolygon = []\<rparr>,
      \<lparr>lanelet_id = 2, basicPolygon = [(0, 0), (1, 0), (1, 1)]\<rparr>]"

definition example_params :: ObjectsFilteringParams where
  "example_params =
     \<lparr>ignore_object_velocity_threshold = 1 / 2,
      object_check_forward_distance = 100,
      object_check_backward_distance = 5,
      object_types_to_check = all_but_pedestrians\<rparr>"

section \<open>The three gates\<close>

lemma foldl_push_back_filter:
  "foldl (\<lambda>acc a. if P a then acc\<lparr>objects := objects acc @ [a]\<rparr> else acc) acc xs
   = acc\<lparr>objects := objects acc @ filter P xs\<rparr>"
  by (induction xs arbitrary: acc) simp_all

lemma objects_filterObjectsByVelocity:
  "objects (filterObjectsByVelocity objs v m) =
   filter (\<lambda>obj. v < v_norm_of obj \<and> v_norm_of obj < m) (objects objs)"
  by (simp add: filterObjectsByVelocity_def Let_def foldl_push_back_filter
      default_PredictedObjects_def)

lemma header_filterObjectsByVelocity:
  "header (filterObjectsByVelocity objs v m) = header objs"
  by (simp add: filterObjectsByVelocity_def Let_def foldl_push_back_filter
      default_PredictedObjects_def)

lemma objects_filterObjectsByPosition:
  "objects (filterObjectsByPosition arc objs pts ego fwd bwd) =
   filter
     (\<lambda>obj. - bwd < arc pts ego
                (position (PoseWithCovariance.pose (initial_pose_with_covariance (kinematics obj))))
          \<and> arc pts ego
                (position (PoseWithCovariance.pose (initial_pose_with_covariance (kinematics obj))))
              < fwd)
     (objects objs)"
  by (simp add: filterObjectsByPosition_def Let_def foldl_push_back_filter
      default_PredictedObjects_def)

lemma header_filterObjectsByPosition:
  "header (filterObjectsByPosition arc objs pts ego fwd bwd) = header objs"
  by (simp add: filterObjectsByPosition_def Let_def)

lemma objects_filterObjectsByClass:
  "objects (filterObjectsByClass resolve objs types) =
   filter (\<lambda>obj. is_object_type (resolve (classification obj)) types) (objects objs)"
  by (simp add: filterObjectsByClass_def Let_def foldl_push_back_filter
      default_PredictedObjects_def)

lemma header_filterObjectsByClass:
  "header (filterObjectsByClass resolve objs types) = default_Header"
  by (simp add: filterObjectsByClass_def Let_def foldl_push_back_filter
      default_PredictedObjects_def)

lemma is_object_type_enabled:
  "is_object_type t target_object_types \<longleftrightarrow> t \<in> enabled_classes target_object_types"
  by (cases t) (simp_all add: is_object_type_def enabled_classes_def)

lemma hypot_3_4: "hypot 3 4 = 5"
proof -
  have "sqrt ((5::real)\<^sup>2) = 5" by (rule real_sqrt_unique) simp_all
  then show ?thesis by (simp add: hypot_def)
qed

lemma v_norm_of_example:
  "v_norm_of (example_object n lbl s v_x v_y paths) = hypot v_x v_y"
  by (simp add: v_norm_of_def example_object_def)

text \<open>
  C3. For every batch and bounds \<open>v\<close> and \<open>m\<close>, the velocity filter returns exactly the
  objects whose planar speed \<open>hypot vx vy\<close> lies strictly between \<open>v\<close> and \<open>m\<close>, in the
  order of the input: its objects are the input objects filtered by that predicate.
\<close>

theorem filterObjectsByVelocity_exact:
  "objects (filterObjectsByVelocity objs v m) =
   filter
     (\<lambda>obj. v < hypot (vec_x (linear_part (twist (initial_twist_with_covariance (kinematics obj)))))
                     (vec_y (linear_part (twist (initial_twist_with_covariance (kinematics obj)))))
          \<and> hypot (vec_x (linear_part (twist (initial_twist_with_covariance (kinematics obj)))))
                  (vec_y (linear_part (twist (initial_twist_with_covariance (kinematics obj)))))
              < m)
     (objects objs)"
  by (simp add: objects_filterObjectsByVelocity v_norm_of_def)

text \<open>
  An instance: of an object at speed 5 and one at rest, the bounds 1 and 10 keep the
  first, and the lower bound 5 keeps neither, the comparison being strict.
\<close>

theorem filterObjectsByVelocity_exact_witness:
  "objects (filterObjectsByVelocity
      \<lparr>header = example_header,
       objects = [example_object 1 CAR 0 3 4 [], example_object 2 CAR 0 0 0 []]\<rparr> 1 10)
     = [example_object 1 CAR 0 3 4 []]
   \<and> objects (filterObjectsByVelocity
      \<lparr>header = example_header,
       objects = [example_object 1 CAR 0 3 4 [], example_object 2 CAR 0 0 0 []]\<rparr> 5 10)
     = []"
  using filterObjectsByVelocity_exact
    [of "\<lparr>header = example_header,
          objects = [example_object 1 CAR 0 3 4 [], example_object 2 CAR 0 0 0 []]\<rparr>"]
  by (simp add: objects_filterObjectsByVelocity v_norm_of_example hypot_3_4)
    (simp add: hypot_def)

text \<open>
  C4. The longitudinal-window gate keeps an object exactly when the signed arc length from
  the ego position to the object's position along the centerline lies strictly between
  minus the backward distance and the forward distance. With both distances zero no object
  is kept, so in particular every object at a nonzero arc length is removed.
\<close>

theorem filterObjectsByPosition_window:
  "objects (filterObjectsByPosition arc objs pts ego fwd bwd) =
     filter
       (\<lambda>obj. - bwd < arc pts ego
                  (position (PoseWithCovariance.pose (initial_pose_with_covariance (kinematics obj))))
            \<and> arc pts ego
                  (position (PoseWithCovariance.pose (initial_pose_with_covariance (kinematics obj))))
                < fwd)
       (objects objs)
   \<and> objects (filterObjectsByPosition arc objs pts ego 0 0) = []"
  by (simp add: objects_filterObjectsByPosition)

text \<open>
  An instance on a straight centerline: of objects 2 m ahead, 150 m ahead and 10 m behind,
  the window of 100 m forward and 5 m backward keeps the first only.
\<close>

theorem filterObjectsByPosition_window_witness:
  "objects (filterObjectsByPosition arc_length_along_x
      \<lparr>header = example_header,
       objects = [example_object 1 CAR 2 0 0 [], example_object 2 CAR 150 0 0 [],
                  example_object 3 TRUCK (- 10) 0 0 []]\<rparr>
      [] (position (example_pose 0)) 100 5)
     = [example_object 1 CAR 2 0 0 []]"
  using filterObjectsByPosition_window
    [of arc_length_along_x
      "\<lparr>header = example_header,
        objects = [example_object 1 CAR 2 0 0 [], example_object 2 CAR 150 0 0 [],
                   example_object 3 TRUCK (- 10) 0 0 []]\<rparr>"
      "[]" "position (example_pose 0)" 100 5]
  by (simp add: arc_length_along_x_def example_object_def example_pose_def)

subsection \<open>Label resolution and the class gate\<close>

lemma foldl_strict_max:
  fixes key :: "'a \<Rightarrow> real"
  assumes "xs \<noteq> []"
  shows "\<exists>i<length xs.
           foldl (\<lambda>best e. if key best < key e then e else best) (hd xs) (tl xs) = xs ! i
         \<and> (\<forall>j<length xs. key (xs ! j) \<le> key (xs ! i))
         \<and> (\<forall>j<i. key (xs ! j) < key (xs ! i))"
  using assms
proof (induction xs rule: rev_nonempty_induct)
  case (single x)
  show ?case by simp
next
  case (snoc e xs)
  let ?step = "\<lambda>best e. if key best < key e then e else best"
  let ?r = "foldl ?step (hd xs) (tl xs)"
  from snoc.IH obtain i where i: "i < length xs" and r: "?r = xs ! i"
    and ub: "\<And>j. j < length xs \<Longrightarrow> key (xs ! j) \<le> key (xs ! i)"
    and first: "\<And>j. j < i \<Longrightarrow> key (xs ! j) < key (xs ! i)"
    by blast
  have fold_snoc: "foldl ?step (hd (xs @ [e])) (tl (xs @ [e])) = ?step ?r e"
    using snoc.hyps by simp
  show ?case
  proof (cases "key (xs ! i) < key e")
    case True
    have res: "foldl ?step (hd (xs @ [e])) (tl (xs @ [e])) = (xs @ [e]) ! length xs"
      using True r by (simp add: fold_snoc)
    have "key ((xs @ [e]) ! j) \<le> key ((xs @ [e]) ! length xs)" if "j < length (xs @ [e])" for j
    proof (cases "j < length xs")
      case True
      with ub[of j] \<open>key (xs ! i) < key e\<close> show ?thesis by (simp add: nth_append)
    next
      case False
      with that have "j = length xs" by simp
      then show ?thesis by simp
    qed
    moreover have "key ((xs @ [e]) ! j) < key ((xs @ [e]) ! length xs)" if "j < length xs" for j
      using ub[OF that] True that by (simp add: nth_append)
    ultimately show ?thesis
      using res by (intro exI[of _ "length xs"]) simp
  next
    case False
    have res: "foldl ?step (hd (xs @ [e])) (tl (xs @ [e])) = (xs @ [e]) ! i"
      using False r i by (simp add: fold_snoc nth_append)
    have "key ((xs @ [e]) ! j) \<le> key ((xs @ [e]) ! i)" if "j < length (xs @ [e])" for j
    proof (cases "j < length xs")
      case True
      with ub[of j] i show ?thesis by (simp add: nth_append)
    next
      case False
      with that have "j = length xs" by simp
      with \<open>\<not> key (xs ! i) < key e\<close> i show ?thesis by (simp add: nth_append)
    qed
    moreover have "key ((xs @ [e]) ! j) < key ((xs @ [e]) ! i)" if "j < i" for j
      using first[OF that] that i by (simp add: nth_append)
    ultimately show ?thesis
      using res i by (intro exI[of _ i]) simp
  qed
qed

text \<open>
  C7. The class gate keeps an object exactly when the label resolved from its
  classification is one of the classes enabled in the configured class set; this holds
  for whatever function resolves the label. The resolver of the specification returns,
  for a classification with at least one entry, the label of the first-listed entry among
  those of maximum probability: no entry is more probable and every earlier entry is
  strictly less probable.
\<close>

theorem filterObjectsByClass_highest_label:
  "objects (filterObjectsByClass resolve objs types) =
     filter (\<lambda>obj. resolve (classification obj) \<in> enabled_classes types) (objects objs)
   \<and> (cls \<noteq> [] \<longrightarrow>
        (\<exists>i<length cls.
           getHighestProbLabel cls = label (cls ! i)
         \<and> (\<forall>j<length cls. probability (cls ! j) \<le> probability (cls ! i))
         \<and> (\<forall>j<i. probability (cls ! j) < probability (cls ! i))))"
proof (intro conjI impI)
  show "objects (filterObjectsByClass resolve objs types) =
     filter (\<lambda>obj. resolve (classification obj) \<in> enabled_classes types) (objects objs)"
    by (simp add: objects_filterObjectsByClass is_object_type_enabled)
next
  assume ne: "cls \<noteq> []"
  then obtain c rest where cls: "cls = c # rest" by (cases cls) auto
  from foldl_strict_max[OF ne, of probability]
  show "\<exists>i<length cls.
           getHighestProbLabel cls = label (cls ! i)
         \<and> (\<forall>j<length cls. probability (cls ! j) \<le> probability (cls ! i))
         \<and> (\<forall>j<i. probability (cls ! j) < probability (cls ! i))"
    unfolding getHighestProbLabel_def cls by auto
qed

text \<open>
  An instance: with pedestrians disabled, a car, a pedestrian and a truck are reduced to
  the car and the truck; and of the entries bus 0.2, car 0.4, truck 0.4 the car, listed
  before the equally probable truck, is the label.
\<close>

theorem filterObjectsByClass_highest_label_witness:
  "[\<lparr>label = BUS, probability = 1 / 5\<rparr>, \<lparr>label = CAR, probability = 2 / 5\<rparr>,
    \<lparr>label = TRUCK, probability = 2 / 5\<rparr>] \<noteq> []
   \<and> getHighestProbLabel
       [\<lparr>label = BUS, probability = 1 / 5\<rparr>, \<lparr>label = CAR, probability = 2 / 5\<rparr>,
        \<lparr>label = TRUCK, probability = 2 / 5\<rparr>] = CAR
   \<and> objects (filterObjectsByClass getHighestProbLabel
       \<lparr>header = example_header,
        objects = [example_object 1 CAR 0 0 0 [], example_object 2 PEDESTRIAN 0 0 0 [],
                   example_object 3 TRUCK 0 0 0 []]\<rparr>
       all_but_pedestrians)
     = [example_object 1 CAR 0 0 0 [], example_object 3 TRUCK 0 0 0 []]"
  using filterObjectsByClass_highest_label
    [of getHighestProbLabel
      "\<lparr>header = example_header,
        objects = [example_object 1 CAR 0 0 0 [], example_object 2 PEDESTRIAN 0 0 0 [],
                   example_object 3 TRUCK 0 0 0 []]\<rparr>"
      all_but_pedestrians
      "[\<lparr>label = BUS, probability = 1 / 5\<rparr>, \<lparr>label = CAR, probability = 2 / 5\<rparr>,
        \<lparr>label = TRUCK, probability = 2 / 5\<rparr>]"]
  by (simp add: getHighestProbLabel_def enabled_classes_def all_but_pedestrians_def
      example_object_def)

subsection \<open>The header through the pipeline\<close>

text \<open>
  C10. For every batch with at least one object, the batch that \<^verbatim>\<open>filterObjects\<close>
  returns carries a default-constructed header: the velocity stage copies the input
  header, the class stage answers a batch whose header is the default one, and the
  position stage keeps the header it is given.
\<close>

theorem filterObjects_header_default:
  "objects objs \<noteq> [] \<Longrightarrow>
     header (filterObjects resolve arc centre objs lanes ego params) = default_Header
   \<and> header (filterObjectsByVelocity objs v m) = header objs
   \<and> header (filterObjectsByClass resolve objs types) = default_Header
   \<and> header (filterObjectsByPosition arc objs pts ego fwd bwd) = header objs"
  by (simp add: filterObjects_def Let_def header_filterObjectsByPosition
      header_filterObjectsByClass header_filterObjectsByVelocity)

text \<open>An instance: a batch stamped 7 in the frame \<open>map\<close> comes back with the default header.\<close>

theorem filterObjects_header_default_witness:
  "objects \<lparr>header = example_header, objects = [example_object 1 CAR 2 3 4 []]\<rparr> \<noteq> []
   \<and> header \<lparr>header = example_header, objects = [example_object 1 CAR 2 3 4 []]\<rparr>
       \<noteq> default_Header
   \<and> header (filterObjects getHighestProbLabel arc_length_along_x no_centerline
       \<lparr>header = example_header, objects = [example_object 1 CAR 2 3 4 []]\<rparr>
       [] (position (example_pose 0)) example_params)
     = default_Header
   \<and> objects (filterObjects getHighestProbLabel arc_length_along_x no_centerline
       \<lparr>header = example_header, objects = [example_object 1 CAR 2 3 4 []]\<rparr>
       [] (position (example_pose 0)) example_params)
     = [example_object 1 CAR 2 3 4 []]"
  using filterObjects_header_default
    [of "\<lparr>header = example_header, objects = [example_object 1 CAR 2 3 4 []]\<rparr>"
      getHighestProbLabel arc_length_along_x no_centerline "[]" "position (example_pose 0)"
      example_params]
  by (simp add: example_header_def default_Header_def filterObjects_def Let_def
      filterObjectsByVelocity_flag_def objects_filterObjectsByVelocity
      objects_filterObjectsByClass objects_filterObjectsByPosition v_norm_of_example hypot_3_4
      numeric_limits_double_max_def example_params_def is_object_type_def
      all_but_pedestrians_def getHighestProbLabel_def arc_length_along_x_def)
    (simp add: example_object_def example_pose_def)

section \<open>Path selection\<close>

lemma max_element_loop_first_max:
  fixes key :: "'a \<Rightarrow> real"
  assumes "largest < first" "first \<le> length xs"
    "\<And>j. j < first \<Longrightarrow> key (xs ! j) \<le> key (xs ! largest)"
    "\<And>j. j < largest \<Longrightarrow> key (xs ! j) < key (xs ! largest)"
  shows "max_element_loop (\<lambda>a b. key a < key b) xs largest first < length xs
       \<and> (\<forall>j<length xs. key (xs ! j)
             \<le> key (xs ! max_element_loop (\<lambda>a b. key a < key b) xs largest first))
       \<and> (\<forall>j<max_element_loop (\<lambda>a b. key a < key b) xs largest first. key (xs ! j)
             < key (xs ! max_element_loop (\<lambda>a b. key a < key b) xs largest first))"
  using assms
proof (induction "\<lambda>a b::'a. key a < key b" xs largest first rule: max_element_loop.induct)
  case (1 xs largest first)
  show ?case
  proof (cases "first < length xs")
    case False
    with "1.prems"(2) have eq: "first = length xs" by simp
    have res: "max_element_loop (\<lambda>a b. key a < key b) xs largest first = largest"
      using False by simp
    show ?thesis
      unfolding res using "1.prems" eq by simp
  next
    case True
    let ?l = "if key (xs ! largest) < key (xs ! first) then first else largest"
    have res: "max_element_loop (\<lambda>a b. key a < key b) xs largest first
             = max_element_loop (\<lambda>a b. key a < key b) xs ?l (first + 1)"
      using True by (subst max_element_loop.simps) simp
    have a: "?l < first + 1" using "1.prems"(1) by simp
    have b: "first + 1 \<le> length xs" using True by simp
    have c: "key (xs ! j) \<le> key (xs ! ?l)" if "j < first + 1" for j
    proof (cases "j < first")
      case True
      with "1.prems"(3)[of j] show ?thesis by auto
    next
      case False
      with that have "j = first" by simp
      then show ?thesis by simp
    qed
    have d: "key (xs ! j) < key (xs ! ?l)" if "j < ?l" for j
    proof (cases "key (xs ! largest) < key (xs ! first)")
      case True
      with that have "j < first" by simp
      with "1.prems"(3)[of j] True show ?thesis by simp
    next
      case False
      with that "1.prems"(4)[of j] show ?thesis by simp
    qed
    show ?thesis
      unfolding res by (rule "1.hyps"[OF True a b c d])
  qed
qed

text \<open>
  C8. When only the highest-confidence path is selected (the use-all flag is false) from
  an object with at least one predicted path, \<^verbatim>\<open>getPredictedPathFromObj\<close> returns exactly
  one path, the one at the first index that attains the maximum confidence: no path is
  more confident and every path listed before it is strictly less confident.
\<close>

theorem getPredictedPathFromObj_first_max:
  assumes "predicted_paths obj \<noteq> []"
  shows "\<exists>i<length (predicted_paths obj).
           getPredictedPathFromObj obj False = [predicted_paths obj ! i]
         \<and> (\<forall>j<length (predicted_paths obj).
               confidence (predicted_paths obj ! j) \<le> confidence (predicted_paths obj ! i))
         \<and> (\<forall>j<i. confidence (predicted_paths obj ! j) < confidence (predicted_paths obj ! i))"
proof -
  let ?xs = "predicted_paths obj"
  let ?i = "max_element_loop (\<lambda>path1 path2. confidence path1 < confidence path2) ?xs 0 1"
  have len: "1 \<le> length ?xs" using assms by (cases ?xs) simp_all
  have m: "?i < length ?xs
       \<and> (\<forall>j<length ?xs. confidence (?xs ! j) \<le> confidence (?xs ! ?i))
       \<and> (\<forall>j<?i. confidence (?xs ! j) < confidence (?xs ! ?i))"
    by (rule max_element_loop_first_max[where key = confidence]) (use len in simp_all)
  have "getPredictedPathFromObj obj False = [?xs ! ?i]"
    using assms m by (simp add: getPredictedPathFromObj_def max_element_def Let_def)
  with m show ?thesis by blast
qed

text \<open>
  An instance: of four paths with confidences 0.2, 0.7, 0.7 and 0.1 the second is
  returned, not the equally confident third.
\<close>

theorem getPredictedPathFromObj_first_max_witness:
  "predicted_paths
     \<lparr>uuid = [1], initial_pose = initial_pose_with_covariance (kinematics (example_object 1 CAR 0 0 0 [])),
      initial_twist = initial_twist_with_covariance (kinematics (example_object 1 CAR 0 0 0 [])),
      initial_acceleration =
        initial_acceleration_with_covariance (kinematics (example_object 1 CAR 0 0 0 [])),
      shape = PredictedObject.shape (example_object 1 CAR 0 0 0 []),
      predicted_paths =
        [example_path (1 / 5) 1, example_path (7 / 10) 2, example_path (7 / 10) 3,
         example_path (1 / 10) 4]\<rparr> \<noteq> []
   \<and> getPredictedPathFromObj
     \<lparr>uuid = [1], initial_pose = initial_pose_with_covariance (kinematics (example_object 1 CAR 0 0 0 [])),
      initial_twist = initial_twist_with_covariance (kinematics (example_object 1 CAR 0 0 0 [])),
      initial_acceleration =
        initial_acceleration_with_covariance (kinematics (example_object 1 CAR 0 0 0 [])),
      shape = PredictedObject.shape (example_object 1 CAR 0 0 0 []),
      predicted_paths =
        [example_path (1 / 5) 1, example_path (7 / 10) 2, example_path (7 / 10) 3,
         example_path (1 / 10) 4]\<rparr> False
     = [example_path (7 / 10) 2]"
  using getPredictedPathFromObj_first_max
    [of "\<lparr>uuid = [1], initial_pose = initial_pose_with_covariance (kinematics (example_object 1 CAR 0 0 0 [])),
      initial_twist = initial_twist_with_covariance (kinematics (example_object 1 CAR 0 0 0 [])),
      initial_acceleration =
        initial_acceleration_with_covariance (kinematics (example_object 1 CAR 0 0 0 [])),
      shape = PredictedObject.shape (example_object 1 CAR 0 0 0 []),
      predicted_paths =
        [example_path (1 / 5) 1, example_path (7 / 10) 2, example_path (7 / 10) 3,
         example_path (1 / 10) 4]\<rparr>"]
  by (simp add: getPredictedPathFromObj_def max_element_def example_path_def)

section \<open>Partition by lanelets\<close>

lemma lanelet_loop_result:
  "lanelet_loop dj pg i lls (tis, False) =
     (if touches_some_lanelet dj lls pg then (tis @ [i], True) else (tis, False))"
  by (induction lls) (simp_all add: touches_some_lanelet_def touches_lanelet_def Let_def)

lemma lanelet_loop_first_match:
  "\<not> touches_some_lanelet dj before pg \<Longrightarrow> touches_lanelet dj pg llt \<Longrightarrow>
   lanelet_loop dj pg i (before @ llt # after) (tis, False) = (tis @ [i], True)"
  by (induction before) (auto simp add: touches_some_lanelet_def touches_lanelet_def Let_def)

lemma object_loop_result:
  "i \<le> length (objects objs) \<Longrightarrow>
   object_loop tp dj objs lls i (tis, ois) =
     (tis @ filter (\<lambda>k. touches_some_lanelet dj lls (tp (objects objs ! k)))
             [i..<length (objects objs)],
      ois @ filter (\<lambda>k. \<not> touches_some_lanelet dj lls (tp (objects objs ! k)))
             [i..<length (objects objs)])"
proof (induction tp dj objs lls i "(tis, ois)" arbitrary: tis ois rule: object_loop.induct)
  case (1 tp dj objs lls i tis ois)
  show ?case
  proof (cases "i < length (objects objs)")
    case False
    with "1.prems" show ?thesis by simp
  next
    case True
    then have upt: "[i..<length (objects objs)] = i # [i + 1..<length (objects objs)]"
      by (simp add: upt_conv_Cons)
    show ?thesis
    proof (cases "touches_some_lanelet dj lls (tp (objects objs ! i))")
      case t: True
      from True t "1.hyps"[OF True refl refl, of "(tis @ [i], True)" "tis @ [i]" True ois]
      show ?thesis
        by (subst object_loop.simps) (simp add: lanelet_loop_result upt del: object_loop.simps)
    next
      case f: False
      from True f "1.hyps"[OF True refl refl, of "(tis, False)" tis False "ois @ [i]"]
      show ?thesis
        by (subst object_loop.simps) (simp add: lanelet_loop_result upt del: object_loop.simps)
    qed
  qed
qed

lemma push_back_at_result:
  "\<forall>i \<in> set idx. i < length (objects objs) \<Longrightarrow>
   push_back_at objs idx out =
     Inr (out\<lparr>objects := objects out @ map (\<lambda>i. objects objs ! i) idx\<rparr>)"
  by (induction idx arbitrary: out) (simp_all add: vector_at_def)

lemma map_nth_filter_upt:
  "map (\<lambda>i. xs ! i) (filter (\<lambda>k. P (xs ! k)) [0..<length xs]) = filter P xs"
proof -
  have "filter P (map (\<lambda>i. xs ! i) [0..<length xs]) = filter P xs"
    by (simp add: map_nth)
  then show ?thesis by (simp add: filter_map comp_def)
qed

lemma separateObjectIndicesByLanelets_result:
  "lls \<noteq> [] \<Longrightarrow>
   separateObjectIndicesByLanelets tp dj objs lls =
     (filter (\<lambda>k. touches_some_lanelet dj lls (tp (objects objs ! k))) [0..<length (objects objs)],
      filter (\<lambda>k. \<not> touches_some_lanelet dj lls (tp (objects objs ! k)))
        [0..<length (objects objs)])"
  by (simp add: separateObjectIndicesByLanelets_def object_loop_result del: object_loop.simps)

lemma separateObjectsByLanelets_result:
  assumes "lls \<noteq> []"
  shows "separateObjectsByLanelets tp dj objs lls =
     Inr (default_PredictedObjects
            \<lparr>objects := filter (\<lambda>obj. touches_some_lanelet dj lls (tp obj)) (objects objs)\<rparr>,
          default_PredictedObjects
            \<lparr>objects := filter (\<lambda>obj. \<not> touches_some_lanelet dj lls (tp obj)) (objects objs)\<rparr>)"
proof -
  let ?P = "\<lambda>obj. touches_some_lanelet dj lls (tp obj)"
  let ?tis = "filter (\<lambda>k. ?P (objects objs ! k)) [0..<length (objects objs)]"
  let ?ois = "filter (\<lambda>k. \<not> ?P (objects objs ! k)) [0..<length (objects objs)]"
  have t: "push_back_at objs ?tis default_PredictedObjects =
           Inr (default_PredictedObjects\<lparr>objects := filter ?P (objects objs)\<rparr>)"
    by (subst push_back_at_result)
      (simp_all add: map_nth_filter_upt[of "objects objs" ?P] default_PredictedObjects_def)
  have o: "push_back_at objs ?ois default_PredictedObjects =
           Inr (default_PredictedObjects\<lparr>objects := filter (\<lambda>obj. \<not> ?P obj) (objects objs)\<rparr>)"
    by (subst push_back_at_result)
      (simp_all add: map_nth_filter_upt[of "objects objs" "\<lambda>obj. \<not> ?P obj"]
        default_PredictedObjects_def)
  show ?thesis
    unfolding separateObjectsByLanelets_def separateObjectIndicesByLanelets_result[OF assms]
    by (simp only: Let_def prod.case t o sum.case)
qed

text \<open>
  C5. For every batch and every non-empty list of target lanelets, the first output holds
  exactly the objects whose footprint polygon is not disjoint from the closed ring of at
  least one target lanelet with a non-empty ring, and the second output holds the others,
  both in input order; the index lists are duplicate-free, disjoint and together cover
  every index, so every object is in exactly one output. Once a lanelet matches, the
  lanelets after it do not change the outcome for that object.
\<close>

theorem separateObjectsByLanelets_partition:
  assumes "lls \<noteq> []"
  shows "separateObjectsByLanelets tp dj objs lls =
       Inr (default_PredictedObjects
              \<lparr>objects := filter (\<lambda>obj. touches_some_lanelet dj lls (tp obj)) (objects objs)\<rparr>,
            default_PredictedObjects
              \<lparr>objects := filter (\<lambda>obj. \<not> touches_some_lanelet dj lls (tp obj))
                            (objects objs)\<rparr>)
     \<and> separateObjectIndicesByLanelets tp dj objs lls =
         (filter (\<lambda>k. touches_some_lanelet dj lls (tp (objects objs ! k)))
            [0..<length (objects objs)],
          filter (\<lambda>k. \<not> touches_some_lanelet dj lls (tp (objects objs ! k)))
            [0..<length (objects objs)])
     \<and> distinct (fst (separateObjectIndicesByLanelets tp dj objs lls))
     \<and> distinct (snd (separateObjectIndicesByLanelets tp dj objs lls))
     \<and> set (fst (separateObjectIndicesByLanelets tp dj objs lls))
         \<inter> set (snd (separateObjectIndicesByLanelets tp dj objs lls)) = {}
     \<and> set (fst (separateObjectIndicesByLanelets tp dj objs lls))
         \<union> set (snd (separateObjectIndicesByLanelets tp dj objs lls))
         = {0..<length (objects objs)}
     \<and> (\<not> touches_some_lanelet dj before pg \<longrightarrow> touches_lanelet dj pg llt \<longrightarrow>
          lanelet_loop dj pg i (before @ llt # after) (tis, False) = (tis @ [i], True))"
proof (intro conjI impI)
  show "separateObjectsByLanelets tp dj objs lls =
       Inr (default_PredictedObjects
              \<lparr>objects := filter (\<lambda>obj. touches_some_lanelet dj lls (tp obj)) (objects objs)\<rparr>,
            default_PredictedObjects
              \<lparr>objects := filter (\<lambda>obj. \<not> touches_some_lanelet dj lls (tp obj))
                            (objects objs)\<rparr>)"
    by (rule separateObjectsByLanelets_result[OF assms])
next
  show "separateObjectIndicesByLanelets tp dj objs lls =
         (filter (\<lambda>k. touches_some_lanelet dj lls (tp (objects objs ! k)))
            [0..<length (objects objs)],
          filter (\<lambda>k. \<not> touches_some_lanelet dj lls (tp (objects objs ! k)))
            [0..<length (objects objs)])"
    by (rule separateObjectIndicesByLanelets_result[OF assms])
next
  show "distinct (fst (separateObjectIndicesByLanelets tp dj objs lls))"
    by (simp add: separateObjectIndicesByLanelets_result[OF assms])
next
  show "distinct (snd (separateObjectIndicesByLanelets tp dj objs lls))"
    by (simp add: separateObjectIndicesByLanelets_result[OF assms])
next
  show "set (fst (separateObjectIndicesByLanelets tp dj objs lls))
         \<inter> set (snd (separateObjectIndicesByLanelets tp dj objs lls)) = {}"
    by (auto simp add: separateObjectIndicesByLanelets_result[OF assms])
next
  show "set (fst (separateObjectIndicesByLanelets tp dj objs lls))
         \<union> set (snd (separateObjectIndicesByLanelets tp dj objs lls))
         = {0..<length (objects objs)}"
    by (auto simp add: separateObjectIndicesByLanelets_result[OF assms])
next
  assume "\<not> touches_some_lanelet dj before pg" "touches_lanelet dj pg llt"
  then show "lanelet_loop dj pg i (before @ llt # after) (tis, False) = (tis @ [i], True)"
    by (rule lanelet_loop_first_match)
qed

text \<open>
  An instance: against a lanelet without ring and a triangle with the corner (1, 0), the
  object centred at (1, 0) is in the lanelets and the object centred at (5, 0) is not.
\<close>

theorem separateObjectsByLanelets_partition_witness:
  "example_lanelets \<noteq> []
   \<and> separateObjectsByLanelets object_centre share_no_point
       \<lparr>header = example_header,
        objects = [example_object 2 CAR 1 0 0 [], example_object 3 CAR 5 0 0 []]\<rparr>
       example_lanelets
     = Inr (\<lparr>header = default_Header, objects = [example_object 2 CAR 1 0 0 []]\<rparr>,
            \<lparr>header = default_Header, objects = [example_object 3 CAR 5 0 0 []]\<rparr>)
   \<and> separateObjectIndicesByLanelets object_centre share_no_point
       \<lparr>header = example_header,
        objects = [example_object 2 CAR 1 0 0 [], example_object 3 CAR 5 0 0 []]\<rparr>
       example_lanelets
     = ([0], [1])"
proof -
  have a: "touches_some_lanelet share_no_point example_lanelets
             (object_centre (example_object 2 CAR 1 0 0 []))"
    by (simp add: touches_some_lanelet_def touches_lanelet_def example_lanelets_def
        share_no_point_def object_centre_def centre_polygon_def example_object_def
        example_pose_def)
  have b: "\<not> touches_some_lanelet share_no_point example_lanelets
             (object_centre (example_object 3 CAR 5 0 0 []))"
    by (simp add: touches_some_lanelet_def touches_lanelet_def example_lanelets_def
        share_no_point_def object_centre_def centre_polygon_def example_object_def
        example_pose_def)
  have ne: "example_lanelets \<noteq> []" by (simp add: example_lanelets_def)
  have upt2: "[0..<2] = [0, 1]" by (simp add: upt_conv_Cons)
  show ?thesis
    using separateObjectsByLanelets_partition
      [OF ne, of object_centre share_no_point
        "\<lparr>header = example_header,
          objects = [example_object 2 CAR 1 0 0 [], example_object 3 CAR 5 0 0 []]\<rparr>"]
    by (simp add: a b ne default_PredictedObjects_def upt2)
qed

text \<open>
  C9. For every batch, partitioning by an empty list of target lanelets returns two empty
  collections: both index lists are empty and both outputs are the default-constructed
  batch, which has no objects.
\<close>

theorem separateObjectsByLanelets_no_lanelets:
  "separateObjectsByLanelets tp dj objs [] =
     Inr (default_PredictedObjects, default_PredictedObjects)
   \<and> objects default_PredictedObjects = []
   \<and> separateObjectIndicesByLanelets tp dj objs [] = ([], [])"
  by (simp add: separateObjectsByLanelets_def separateObjectIndicesByLanelets_def
      default_PredictedObjects_def)

text \<open>An instance: two objects and no target lanelet give two batches without objects.\<close>

theorem separateObjectsByLanelets_no_lanelets_witness:
  "separateObjectsByLanelets object_centre share_no_point
     \<lparr>header = example_header,
      objects = [example_object 2 CAR 1 0 0 [], example_object 3 CAR 5 0 0 []]\<rparr> []
   = Inr (\<lparr>header = default_Header, objects = []\<rparr>, \<lparr>header = default_Header, objects = []\<rparr>)"
  using separateObjectsByLanelets_no_lanelets
    [of object_centre share_no_point
      "\<lparr>header = example_header,
        objects = [example_object 2 CAR 1 0 0 [], example_object 3 CAR 5 0 0 []]\<rparr>"]
  by (simp add: default_PredictedObjects_def)

section \<open>The sampling loop\<close>






text \<open>With a step that is not positive the loop, once entered, does not return.\<close>

lemma for_time_no_result:
  assumes r: "for_time body limit dt t s = Some y"
  shows "dt \<le> 0 \<longrightarrow> t < limit \<longrightarrow> False"
proof (rule for_time.raw_induct
    [where P = "\<lambda>body limit dt t s y. dt \<le> 0 \<longrightarrow> t < limit \<longrightarrow> False", OF _ r],
    intro impI)
  fix f :: "(real \<Rightarrow> 'a \<Rightarrow> 'a) \<Rightarrow> real \<Rightarrow> real \<Rightarrow> real \<Rightarrow> 'a \<Rightarrow> 'a option"
  fix body limit dt t s y
  assume IH: "\<And>body limit dt t s y.
      f body limit dt t s = Some y \<Longrightarrow> dt \<le> 0 \<longrightarrow> t < limit \<longrightarrow> False"
    and step: "(if t < limit then f body limit dt (t + dt) (body t s) else Some s) = Some y"
    and neg: "dt \<le> 0" and lt: "t < limit"
  from step lt have "f body limit dt (t + dt) (body t s) = Some y" by simp
  moreover from neg lt have "t + dt < limit" by simp
  ultimately show False using IH neg by blast
qed

lemma for_time_diverges:
  "dt \<le> 0 \<Longrightarrow> t < limit \<Longrightarrow> for_time body limit dt t s = None"
  using for_time_no_result[of body limit dt t s] by (cases "for_time body limit dt t s") auto




section \<open>Ego projection\<close>




section \<open>Other-agent projection\<close>














end
